theory Spec2Isabelle
  imports Main "HOL-Library.Word"
begin

unbundle bit_operations_syntax

section \<open>The placeholder PNG encoder of \<open>create_assets.py\<close>\<close>

text \<open>
  The encoder is the function \<open>create_simple_png(width, height, color)\<close> together with
  its nested helper \<open>write_png_chunk(f, chunk_type, data)\<close>. Python integers are
  unbounded and are modelled as \<open>int\<close>; a \<open>bytes\<close> value is a list of 8-bit words.
  Every exception the code can raise is a value of \<open>error\<close>, and a call returns
  \<open>error + 'a\<close> with \<open>Inl\<close> for the exception.
\<close>

subsection \<open>Data\<close>

type_synonym byte = "8 word"
type_synonym bytes = "byte list"

text \<open>The \<open>color\<close> argument: an RGB triple of Python integers.\<close>

type_synonym color = "int \<times> int \<times> int"

text \<open>
  \<open>StructError\<close> is \<open>struct.error\<close>, raised by \<open>struct.pack\<close> for an integer outside
  the range of its format code. \<open>AttributeError\<close> is raised by an attribute lookup
  \<open>f.write\<close> on an object that has no attribute \<open>write\<close>.
\<close>

datatype error = StructError | AttributeError

text \<open>
  The object bound to the parameter \<open>f\<close> of \<open>write_png_chunk\<close>. The helper only ever
  uses \<open>f.write\<close>, the method of a binary file object (\<open>open(path, 'wb')\<close>,
  \<open>io.BytesIO()\<close>), which appends the bytes it is given. A \<open>bytearray\<close> grows by
  \<open>extend\<close> and has no attribute \<open>write\<close>. Both kinds of object carry the bytes
  accumulated so far.
\<close>

datatype sink = Bytearray bytes | BinaryFile bytes

fun contents :: "sink \<Rightarrow> bytes" where
  "contents (Bytearray buf) = buf"
| "contents (BinaryFile buf) = buf"

subsection \<open>\<open>struct.pack\<close>\<close>

text \<open>The four bytes of an unsigned 32-bit integer, most significant first.\<close>

definition be_u32 :: "int \<Rightarrow> bytes" where
  "be_u32 n = [word_of_int (drop_bit 24 n), word_of_int (drop_bit 16 n),
               word_of_int (drop_bit 8 n), word_of_int n]"

text \<open>
  \<open>struct.pack('>I', n)\<close>: format code \<open>I\<close> requires \<open>0 <= n <= 4294967295\<close> and raises
  \<open>struct.error\<close> otherwise.
\<close>

definition in_range_I :: "int \<Rightarrow> bool" where
  "in_range_I n \<longleftrightarrow> 0 \<le> n \<and> n \<le> 4294967295"

definition struct_pack_I :: "int \<Rightarrow> error + bytes" where
  "struct_pack_I n = (if in_range_I n then Inr (be_u32 n) else Inl StructError)"

text \<open>Format code \<open>B\<close> requires \<open>0 <= n <= 255\<close>.\<close>

definition struct_pack_B :: "int \<Rightarrow> error + bytes" where
  "struct_pack_B n = (if 0 \<le> n \<and> n \<le> 255 then Inr [word_of_int n] else Inl StructError)"

text \<open>Packing a sequence of fields: the first field out of range raises.\<close>

fun pack_fields :: "(error + bytes) list \<Rightarrow> error + bytes" where
  "pack_fields [] = Inr []"
| "pack_fields (Inl e # fs) = Inl e"
| "pack_fields (Inr bs # fs) =
     (case pack_fields fs of Inl e \<Rightarrow> Inl e | Inr rest \<Rightarrow> Inr (bs @ rest))"

text \<open>\<open>struct.pack('>IIBBBBB', a, b, c, d, e, g, h)\<close>.\<close>

definition struct_pack_IIBBBBB ::
  "int \<Rightarrow> int \<Rightarrow> int \<Rightarrow> int \<Rightarrow> int \<Rightarrow> int \<Rightarrow> int \<Rightarrow> error + bytes" where
  "struct_pack_IIBBBBB a b c d e g h =
     pack_fields [struct_pack_I a, struct_pack_I b, struct_pack_B c, struct_pack_B d,
                  struct_pack_B e, struct_pack_B g, struct_pack_B h]"

subsection \<open>The checksum loop of \<open>write_png_chunk\<close>\<close>

text \<open>
  The body of the inner loop \<open>for _ in range(8)\<close>: on Python integers \<open>crc >> 1\<close> is
  \<open>drop_bit 1\<close> and \<open>crc & 1\<close> is \<open>crc AND 1\<close>.
\<close>

definition crc_shift :: "int \<Rightarrow> int" where
  "crc_shift crc =
     (if crc AND 1 \<noteq> 0 then drop_bit 1 crc XOR 0xedb88320 else drop_bit 1 crc)"

text \<open>The body of the outer loop \<open>for byte in chunk_type + data\<close>.\<close>

definition crc_byte :: "int \<Rightarrow> byte \<Rightarrow> int" where
  "crc_byte crc b = (crc_shift ^^ 8) (crc XOR uint b)"

text \<open>The value of \<open>crc\<close> after the outer loop, started at \<open>0xffffffff\<close>.\<close>

definition crc_loop :: "bytes \<Rightarrow> int" where
  "crc_loop bs = foldl crc_byte 0xffffffff bs"

subsection \<open>\<open>write_png_chunk\<close>\<close>

text \<open>
  One statement \<open>f.write(arg)\<close>. Python evaluates the attribute \<open>f.write\<close> first, so a
  \<open>bytearray\<close> raises \<open>AttributeError\<close> before the argument is evaluated; then the
  argument, which may raise; then the call, which appends.
\<close>

fun py_write :: "sink \<Rightarrow> error + bytes \<Rightarrow> error + sink" where
  "py_write (Bytearray buf) arg = Inl AttributeError"
| "py_write (BinaryFile buf) (Inl e) = Inl e"
| "py_write (BinaryFile buf) (Inr bs) = Inr (BinaryFile (buf @ bs))"

definition write_png_chunk :: "sink \<Rightarrow> bytes \<Rightarrow> bytes \<Rightarrow> error + sink" where
  "write_png_chunk f chunk_type data =
     (case py_write f (struct_pack_I (int (length data))) of
        Inl e \<Rightarrow> Inl e
      | Inr f1 \<Rightarrow>
          (case py_write f1 (Inr chunk_type) of
             Inl e \<Rightarrow> Inl e
           | Inr f2 \<Rightarrow>
               (case py_write f2 (Inr data) of
                  Inl e \<Rightarrow> Inl e
                | Inr f3 \<Rightarrow>
                    (let crc = crc_loop (chunk_type @ data)
                     in py_write f3 (struct_pack_I (crc XOR 0xffffffff))))))"

subsection \<open>\<open>create_simple_png\<close>\<close>

text \<open>The literal \<open>b'\x89PNG\r\n\x1a\n'\<close>.\<close>

definition png_signature :: bytes where
  "png_signature = [0x89, 0x50, 0x4E, 0x47, 0x0D, 0x0A, 0x1A, 0x0A]"

text \<open>The chunk type literals \<open>b'IHDR'\<close>, \<open>b'IDAT'\<close> and \<open>b'IEND'\<close>.\<close>

definition IHDR :: bytes where
  "IHDR = [0x49, 0x48, 0x44, 0x52]"

definition IDAT :: bytes where
  "IDAT = [0x49, 0x44, 0x41, 0x54]"

definition IEND :: bytes where
  "IEND = [0x49, 0x45, 0x4E, 0x44]"

text \<open>The literal \<open>b'\x78\x9c\x62\x00\x00\x00\x02\x00\x01'\<close>.\<close>

definition idat_data :: bytes where
  "idat_data = [0x78, 0x9C, 0x62, 0x00, 0x00, 0x00, 0x02, 0x00, 0x01]"

text \<open>
  The function body, statement by statement. \<open>png_data\<close> is the \<open>bytearray\<close> created
  in the first statement; the helper is handed that same object three times, and
  \<open>bytes(png_data)\<close> copies what it holds at the end. The argument \<open>color\<close> is not read.
\<close>

definition create_simple_png :: "int \<Rightarrow> int \<Rightarrow> color \<Rightarrow> error + bytes" where
  "create_simple_png width height color =
     (let png_data = Bytearray [];
          png_data = Bytearray (contents png_data @ png_signature)
      in case struct_pack_IIBBBBB width height 8 2 0 0 0 of
           Inl e \<Rightarrow> Inl e
         | Inr ihdr_data \<Rightarrow>
             (case write_png_chunk png_data IHDR ihdr_data of
                Inl e \<Rightarrow> Inl e
              | Inr png_data \<Rightarrow>
                  (case write_png_chunk png_data IDAT idat_data of
                     Inl e \<Rightarrow> Inl e
                   | Inr png_data \<Rightarrow>
                       (case write_png_chunk png_data IEND [] of
                          Inl e \<Rightarrow> Inl e
                        | Inr png_data \<Rightarrow> Inr (contents png_data)))))"

section \<open>What the encoder does\<close>

subsection \<open>Packing the header fields\<close>

lemma struct_pack_IIBBBBB_header:
  "struct_pack_IIBBBBB w h 8 2 0 0 0 =
     (if in_range_I w \<and> in_range_I h
      then Inr (be_u32 w @ be_u32 h @ [8, 2, 0, 0, 0]) else Inl StructError)"
  by (simp add: struct_pack_IIBBBBB_def struct_pack_I_def struct_pack_B_def)

subsection \<open>The helper on a \<open>bytearray\<close>\<close>

text \<open>
  The first statement of the helper looks up \<open>f.write\<close>. On a \<open>bytearray\<close> the lookup
  raises, so nothing is appended and the exception leaves the helper.
\<close>

lemma write_png_chunk_Bytearray:
  "write_png_chunk (Bytearray buf) chunk_type data = Inl AttributeError"
  by (simp add: write_png_chunk_def)

text \<open>
  \<open>create_simple_png\<close> hands its \<open>bytearray\<close> to the helper, so every call ends in an
  exception: \<open>struct.error\<close> when a dimension does not fit the \<open>I\<close> field, and
  \<open>AttributeError\<close> from the first chunk otherwise.
\<close>

lemma create_simple_png_raises:
  "create_simple_png width height color =
     (if in_range_I width \<and> in_range_I height then Inl AttributeError else Inl StructError)"
  by (simp add: create_simple_png_def struct_pack_IIBBBBB_header write_png_chunk_Bytearray)

subsection \<open>The helper on a binary file object\<close>

text \<open>
  On an object that has \<open>write\<close> the helper appends the length, the type, the data and
  the checksum, in that order. The running checksum is a Python integer; it stays within
  32 bits, so packing it with format \<open>I\<close> cannot raise.
\<close>

lemma in_range_I_iff: "in_range_I n \<longleftrightarrow> 0 \<le> n \<and> n < 2 ^ 32"
  by (auto simp: in_range_I_def)

lemma in_range_I_xor:
  assumes "in_range_I x" "in_range_I y"
  shows "in_range_I (x XOR y)"
proof -
  from assms have x: "0 \<le> x" "x < 2 ^ 32" and y: "0 \<le> y" "y < 2 ^ 32"
    by (simp_all only: in_range_I_iff)
  have "x XOR y < 2 ^ 32" using x y(2) by (rule XOR_upper)
  moreover have "0 \<le> x XOR y" using x(1) y(1) by simp
  ultimately show ?thesis by (simp only: in_range_I_iff)
qed

lemma in_range_I_drop_bit:
  assumes "in_range_I x"
  shows "in_range_I (drop_bit 1 x)"
proof -
  from assms have "0 \<le> x" "x \<le> 4294967295" by (simp_all add: in_range_I_def)
  then have "0 \<le> x div 2" "x div 2 \<le> 4294967295" by simp_all
  then show ?thesis by (simp add: in_range_I_def drop_bit_eq_div)
qed

lemma in_range_I_poly: "in_range_I 0xedb88320"
  by (simp add: in_range_I_def)

lemma in_range_I_crc_shift: "in_range_I crc \<Longrightarrow> in_range_I (crc_shift crc)"
  unfolding crc_shift_def
  by (simp only: in_range_I_drop_bit in_range_I_xor in_range_I_poly if_split) simp

lemma in_range_I_crc_shift_funpow: "in_range_I crc \<Longrightarrow> in_range_I ((crc_shift ^^ n) crc)"
  by (induction n) (simp_all add: in_range_I_crc_shift)

lemma in_range_I_uint_byte: "in_range_I (uint (b :: byte))"
proof -
  have "uint b < 2 ^ 8" using uint_bounded [of b] by simp
  then show ?thesis by (simp add: in_range_I_def)
qed

lemma in_range_I_crc_byte: "in_range_I crc \<Longrightarrow> in_range_I (crc_byte crc b)"
  by (simp add: crc_byte_def in_range_I_crc_shift_funpow in_range_I_xor in_range_I_uint_byte)

lemma in_range_I_foldl_crc_byte: "in_range_I crc \<Longrightarrow> in_range_I (foldl crc_byte crc bs)"
  by (induction bs arbitrary: crc) (simp_all add: in_range_I_crc_byte)

lemma in_range_I_crc_loop: "in_range_I (crc_loop bs)"
  unfolding crc_loop_def by (rule in_range_I_foldl_crc_byte) (simp add: in_range_I_def)

lemma in_range_I_crc_final: "in_range_I (crc_loop bs XOR 0xffffffff)"
  by (rule in_range_I_xor [OF in_range_I_crc_loop]) (simp add: in_range_I_def)

lemma write_png_chunk_BinaryFile:
  assumes "length data \<le> 4294967295"
  shows "write_png_chunk (BinaryFile buf) chunk_type data =
     Inr (BinaryFile (buf @ be_u32 (int (length data)) @ chunk_type @ data @
                      be_u32 (crc_loop (chunk_type @ data) XOR 0xffffffff)))"
  using assms in_range_I_crc_final [of "chunk_type @ data"]
  by (simp add: write_png_chunk_def struct_pack_I_def in_range_I_def)

text \<open>
  The checksum loop on the four bytes of \<open>IEND\<close> gives \<open>AE 42 60 82\<close>, the checksum
  every PNG file ends with.
\<close>

lemma crc_loop_IEND: "crc_loop IEND XOR 0xffffffff = 0xAE426082"
  by code_simp

lemma write_png_chunk_BinaryFile_IEND:
  "write_png_chunk (BinaryFile []) IEND [] =
     Inr (BinaryFile [0, 0, 0, 0, 0x49, 0x45, 0x4E, 0x44, 0xAE, 0x42, 0x60, 0x82])"
  by code_simp

section \<open>The claims\<close>

text \<open>
  Claim C1: \<open>create_simple_png(1, 1, (0, 0, 0))\<close> is to return the reference byte
  sequence (signature, IHDR, IDAT and IEND chunks). The call returns no bytes: the first
  chunk write looks up \<open>write\<close> on the \<open>bytearray\<close> and the call ends in
  \<open>AttributeError\<close>.
\<close>

theorem create_simple_png_1x1_black:
  "create_simple_png 1 1 (0, 0, 0) = Inl AttributeError"
  by (simp add: create_simple_png_raises in_range_I_def)

text \<open>
  Claim C2: every chunk of the returned byte sequence is to carry the CRC-32 of its type
  and payload. In the call for a 1 by 1 image the helper is entered for the IHDR chunk
  with the \<open>bytearray\<close> holding the signature; it raises \<open>AttributeError\<close> before the
  checksum loop is reached, so no checksum is stored.
\<close>

theorem write_png_chunk_IHDR_1x1_raises:
  "write_png_chunk (Bytearray png_signature) IHDR (be_u32 1 @ be_u32 1 @ [8, 2, 0, 0, 0]) =
     Inl AttributeError"
  by (simp add: write_png_chunk_Bytearray)

text \<open>
  Claim C3: the IDAT payload of the output is to be the constant nine bytes for every
  input. For the 800 by 600 sky-blue background the call ends in \<open>AttributeError\<close>;
  there is no output and no IDAT chunk.
\<close>

theorem create_simple_png_background_raises:
  "create_simple_png 800 600 (135, 206, 235) = Inl AttributeError"
  by (simp add: create_simple_png_raises in_range_I_def)

text \<open>
  Claim C4, as amended: the call fails for a reason of dimension, the \<open>struct.error\<close>
  of packing the IHDR fields, exactly when the width or the height is negative or
  greater than 4294967295. A width or height of zero is not rejected as a dimension.
\<close>

theorem create_simple_png_StructError_iff:
  "create_simple_png width height color = Inl StructError \<longleftrightarrow>
     width < 0 \<or> 4294967295 < width \<or> height < 0 \<or> 4294967295 < height"
  by (auto simp: create_simple_png_raises in_range_I_def)

theorem create_simple_png_StructError_iff_witness:
  "create_simple_png (- 1) 5 (0, 0, 0) = Inl StructError \<and>
   create_simple_png 0 5 (0, 0, 0) \<noteq> Inl StructError"
  using create_simple_png_StructError_iff [of "- 1" 5 "(0, 0, 0)"]
    create_simple_png_StructError_iff [of 0 5 "(0, 0, 0)"]
  by simp

text \<open>
  Claim C4 as written fails at both ends. With width and height zero, both non-positive,
  the call does not fail for a reason of dimension; with width 4294967296 and height 1,
  both positive, it does.
\<close>

theorem create_simple_png_dimension_counterexample:
  "\<not> (create_simple_png 0 0 (0, 0, 0) = Inl StructError \<longleftrightarrow> (0::int) \<le> 0 \<or> (0::int) \<le> 0) \<and>
   \<not> (create_simple_png 4294967296 1 (0, 0, 0) = Inl StructError \<longleftrightarrow>
        (4294967296::int) \<le> 0 \<or> (1::int) \<le> 0)"
  by (simp add: create_simple_png_raises in_range_I_def)

text \<open>
  Claim C5: the IHDR chunk of the output is to decode to the width and height that were
  passed. For the 80 by 200 forest-green pipe the header fields are packed, then the
  IHDR chunk write raises \<open>AttributeError\<close>; no IHDR chunk is produced.
\<close>

theorem create_simple_png_pipe_raises:
  "create_simple_png 80 200 (34, 139, 34) = Inl AttributeError"
  by (simp add: create_simple_png_raises in_range_I_def)

text \<open>
  Claim C6: the returned byte sequence is to begin with the eight signature bytes. For
  the 40 by 40 gold bird the signature is put into the \<open>bytearray\<close>, and the call then
  ends in \<open>AttributeError\<close> and returns nothing.
\<close>

theorem create_simple_png_bird_raises:
  "create_simple_png 40 40 (255, 215, 0) = Inl AttributeError"
  by (simp add: create_simple_png_raises in_range_I_def)

text \<open>
  Claim C7: the output is to hold one IHDR, one IDAT and one empty IEND chunk, in that
  order. For a 2 by 3 white image the call ends in \<open>AttributeError\<close> at the first of the
  three chunk writes.
\<close>

theorem create_simple_png_2x3_white_raises:
  "create_simple_png 2 3 (255, 255, 255) = Inl AttributeError"
  by (simp add: create_simple_png_raises in_range_I_def)

text \<open>
  Claim C8: each chunk is to be written as length, type, payload and checksum. In the
  call for the 40 by 40 bird the helper is entered for the IHDR chunk with the
  \<open>bytearray\<close> holding the signature; it raises \<open>AttributeError\<close> at the statement
  that would write the length, and writes none of the four parts.
\<close>

theorem write_png_chunk_IHDR_bird_raises:
  "write_png_chunk (Bytearray png_signature) IHDR (be_u32 40 @ be_u32 40 @ [8, 2, 0, 0, 0]) =
     Inl AttributeError"
  by (simp add: write_png_chunk_Bytearray)

text \<open>
  Claim C9: the result of the encoder does not depend on the \<open>color\<close> argument. For the
  same width and height, two colors give the same outcome of the call.
\<close>

theorem create_simple_png_color_independent:
  "create_simple_png width height c1 = create_simple_png width height c2"
  by (simp add: create_simple_png_raises)

text \<open>
  Claim C10: every input accepted without error is to give 66 bytes. No input is
  accepted without error: whatever the width, height and color, the call does not return
  a byte sequence.
\<close>

theorem create_simple_png_never_returns:
  "create_simple_png width height color \<noteq> Inr bs"
  by (simp add: create_simple_png_raises)

end
